theory Spec2Isabelle
  imports Main "HOL-Library.Monad_Syntax"
begin

section \<open>The generator component of the physics-informed Wasserstein GAN\<close>

text \<open>
  A shallow embedding of \<^verbatim>\<open>pigan/components/generator.py\<close>. The class
  \<^verbatim>\<open>Generator\<close> is a thin orchestration of TensorFlow, Keras and three collaborator
  objects (noise sampler, PDE, boundary conditions). The embedding keeps the body of every
  method line by line; what the libraries and the collaborators compute is a parameter
  (the record \<open>host\<close>), and what the class itself decides (which call, in which
  order, on which arguments, stored where) is what the theorems are about.

  A Python exception is the value \<open>None\<close> of the option monad: it aborts the method
  at the line that raises, and nothing after that line happens.
\<close>

subsection \<open>Tensors and the three shape operations the class uses\<close>

text \<open>
  A tensor is its shape and its elements in row-major order. The element type \<open>'a\<close>
  stands for the values of the dtype (float32 in the repository); no arithmetic on elements
  is done here, the arithmetic operations of TensorFlow are fields of \<open>host\<close>.
\<close>

datatype 'a tensor = Tensor (shape: "nat list") (data: "'a list")

text \<open>\<^verbatim>\<open>t.shape[i]\<close>: an index past the rank raises IndexError.\<close>

definition shape_at :: "'a tensor \<Rightarrow> nat \<Rightarrow> nat option" where
  "shape_at t i = (if i < length (shape t) then Some (shape t ! i) else None)"

text \<open>The \<open>n\<close> consecutive blocks of \<open>k\<close> elements of a row-major element list.\<close>

definition blocks :: "nat \<Rightarrow> nat \<Rightarrow> 'a list \<Rightarrow> 'a list list" where
  "blocks n k xs = map (\<lambda>i. take k (drop (i * k) xs)) [0..<n]"

text \<open>
  \<^verbatim>\<open>tf.tile(t, multiples)\<close> as the class calls it: two multiples, so the operand must
  have rank 2 (TensorFlow rejects a multiples vector whose length differs from the rank).
\<close>

definition tf_tile :: "'a tensor \<Rightarrow> nat list \<Rightarrow> 'a tensor option" where
  "tf_tile t multiples =
     (case (shape t, multiples) of
        ([n, d], [m, k]) \<Rightarrow>
          Some (Tensor [m * n, k * d]
            (concat (replicate m
               (concat (map (\<lambda>r. concat (replicate k r)) (blocks n d (data t)))))))
      | _ \<Rightarrow> None)"

text \<open>
  \<^verbatim>\<open>tf.concat(ts, axis=1)\<close>: every operand has the same rank (at least 2) and the same
  dimensions except along axis 1; the result stacks, for each index of axis 0, the blocks
  of the operands one after the other.
\<close>

definition concat_compatible :: "'a tensor \<Rightarrow> 'a tensor \<Rightarrow> bool" where
  "concat_compatible a b =
     (2 \<le> length (shape a) \<and> length (shape b) = length (shape a) \<and>
      hd (shape b) = hd (shape a) \<and> drop 2 (shape b) = drop 2 (shape a))"

definition tf_concat_axis1 :: "'a tensor list \<Rightarrow> 'a tensor option" where
  "tf_concat_axis1 ts =
     (case ts of
        [] \<Rightarrow> None
      | a # rest \<Rightarrow>
          if list_all (concat_compatible a) ts then
            (let n = hd (shape a); inner = prod_list (drop 2 (shape a))
             in Some (Tensor
                  (n # sum_list (map (\<lambda>t. shape t ! 1) ts) # drop 2 (shape a))
                  (concat (map (\<lambda>i. concat (map (\<lambda>t.
                      take (shape t ! 1 * inner) (drop (i * (shape t ! 1 * inner)) (data t))) ts))
                    [0..<n]))))
          else None)"

definition tf_concat :: "'a tensor list \<Rightarrow> nat \<Rightarrow> 'a tensor option" where
  "tf_concat ts axis = (if axis = 1 then tf_concat_axis1 ts else None)"

text \<open>
  \<^verbatim>\<open>tf.reshape(t, sizes)\<close>, with at most one size \<^verbatim>\<open>-1\<close> to be inferred. The
  kernel multiplies the non-zero sizes given (\<open>product\<close>); when a size is to be inferred
  it multiplies the dimensions of the operand, leaving the zero ones out if a zero size was
  given, divides, and insists on an exact division unless it left a zero dimension out.
  In every case the number of elements must not change.
\<close>

definition tf_reshape :: "'a tensor \<Rightarrow> int list \<Rightarrow> 'a tensor option" where
  "tf_reshape t sizes =
     (let product = prod_list (map nat (filter (\<lambda>s. 0 < s) sizes));
          sizes_has_zero_dim = (0 \<in> set sizes);
          counted = filter (\<lambda>d. 0 < d \<or> \<not> sizes_has_zero_dim) (shape t);
          input_has_zero_dim = (length counted < length (shape t));
          input_num_elements = prod_list counted;
          missing = input_num_elements div product;
          new_shape = map (\<lambda>s. if s = -1 then missing else nat s) sizes
      in if list_ex (\<lambda>s. s < -1) sizes \<or> 1 < length (filter (\<lambda>s. s = -1) sizes) then None
         else if -1 \<in> set sizes \<and> \<not> input_has_zero_dim \<and>
                 product * missing \<noteq> input_num_elements then None
         else if prod_list new_shape \<noteq> prod_list (shape t) then None
         else Some (Tensor new_shape (data t)))"

subsection \<open>Keras Sequential models\<close>

datatype layer =
    Input "nat list"
  | Flatten
  | Dense nat "string option" "string option"
  | Activation string

text \<open>
  A Sequential model: its layer stack and its trainable variables (kernel and bias of each
  Dense layer, in order).
\<close>

record 'a sequential =
  layers :: "layer list"
  trainable_variables :: "'a tensor list"

subsection \<open>The gradient tape and the collaborators\<close>

record 'a tape =
  persistent :: bool
  watched :: "'a tensor list"

text \<open>
  The objects handed to the constructor and to \<^verbatim>\<open>step\<close>. A PDE object and a
  boundary-condition object are their method \<^verbatim>\<open>evaluate_loss\<close>; a discriminator object
  is its attribute \<^verbatim>\<open>discriminator\<close>, a callable Keras model taking the
  \<^verbatim>\<open>training\<close> flag.
\<close>

record 'a pde_obj =
  pde_evaluate_loss :: "(string \<times> 'a tensor) list \<Rightarrow> 'a tape \<Rightarrow> 'a tensor option"

record 'a bc_obj =
  bc_evaluate_loss :: "'a sequential \<Rightarrow> 'a sequential \<Rightarrow> 'a tape \<Rightarrow> 'a tensor option"

record 'a discriminator_obj =
  discriminator :: "bool option \<Rightarrow> 'a tensor \<Rightarrow> 'a tensor option"

text \<open>
  What TensorFlow, Keras, the optimizer class and the noise sampler class compute. \<open>'ns\<close>
  is the state of a noise sampler object (its random generator), \<open>'opt\<close> the state of an
  optimizer object (its slots and step counter).
\<close>

record ('a, 'ns, 'opt) host =
  new_variables :: "layer list \<Rightarrow> layer \<Rightarrow> 'a tensor list"
  model_call :: "'a sequential \<Rightarrow> bool option \<Rightarrow> 'a tensor \<Rightarrow> 'a tensor option"
  sample_noise :: "'ns \<Rightarrow> nat \<Rightarrow> nat \<Rightarrow> ('a tensor \<times> 'ns) option"
  reduce_mean :: "'a tensor \<Rightarrow> 'a tensor"
  negative :: "'a tensor \<Rightarrow> 'a tensor"
  add :: "'a tensor \<Rightarrow> 'a tensor \<Rightarrow> 'a tensor option"
  gradient :: "'a tape \<Rightarrow> 'a tensor \<Rightarrow> 'a tensor list list \<Rightarrow> 'a tensor list list option"
  apply_gradients :: "'opt \<Rightarrow> ('a tensor \<times> 'a tensor) list \<Rightarrow> ('a tensor list \<times> 'opt) option"

subsection \<open>The generator object, the file system and the calls it issues\<close>

record ('a, 'ns, 'opt) generator =
  input_shape :: "nat list"
  generator_u :: "'a sequential"
  generator_E :: "'a sequential"
  gen_opt :: 'opt
  noise_sampler :: 'ns
  pde :: "'a pde_obj"
  boundary_conditions :: "'a bc_obj"

text \<open>
  Every call the class issues on a collaborator or on a network is recorded, in the order
  in which the method body reaches it, with the arguments it passes. A model call records
  the attribute name and the model object (layer stack and variables) it was made on.
\<close>

datatype 'a call =
    SampleNoise nat nat
  | ModelCall string "'a sequential" "bool option" "'a tensor"
  | DiscriminatorCall "bool option" "'a tensor"
  | Watch "'a tensor"
  | PdeEvaluateLoss "(string \<times> 'a tensor) list" "'a tape"
  | BcEvaluateLoss "'a sequential" "'a sequential" "'a tape"
  | TapeGradient "'a tape" "'a tensor" "'a tensor list list"
  | ApplyGradients "('a tensor \<times> 'a tensor) list"

text \<open>
  A path is the list of its components; an HDF5 file written by \<^verbatim>\<open>model.save\<close> holds
  the model, architecture and weights, and \<^verbatim>\<open>load_model\<close> reads it back.
\<close>

type_synonym path = "string list"

definition joinpath :: "path \<Rightarrow> string \<Rightarrow> path" where
  "joinpath dir name = dir @ [name]"

record ('a, 'ns, 'opt) world =
  self :: "('a, 'ns, 'opt) generator"
  trace :: "'a call list"
  files :: "path \<rightharpoonup> 'a sequential"

definition record_call :: "('a, 'ns, 'opt) world \<Rightarrow> 'a call \<Rightarrow> ('a, 'ns, 'opt) world" where
  "record_call w c = w\<lparr>trace := trace w @ [c]\<rparr>"

text \<open>\<^verbatim>\<open>self.noise_sampler.sample_noise(n, count)\<close>: the sampler object advances.\<close>

definition do_sample_noise ::
  "('a, 'ns, 'opt) host \<Rightarrow> ('a, 'ns, 'opt) world \<Rightarrow> nat \<Rightarrow> nat \<Rightarrow>
   ('a tensor \<times> ('a, 'ns, 'opt) world) option" where
  "do_sample_noise h w n count = do {
     (noise, sampler) \<leftarrow> sample_noise h (noise_sampler (self w)) n count;
     Some (noise, record_call (w\<lparr>self := (self w)\<lparr>noise_sampler := sampler\<rparr>\<rparr>)
                    (SampleNoise n count))
   }"

text \<open>\<^verbatim>\<open>self.generator_u(x, training=...)\<close> and \<^verbatim>\<open>self.generator_E(x, training=...)\<close>.\<close>

definition do_generator_u ::
  "('a, 'ns, 'opt) host \<Rightarrow> ('a, 'ns, 'opt) world \<Rightarrow> bool option \<Rightarrow> 'a tensor \<Rightarrow>
   ('a tensor \<times> ('a, 'ns, 'opt) world) option" where
  "do_generator_u h w training x = do {
     y \<leftarrow> model_call h (generator_u (self w)) training x;
     Some (y, record_call w (ModelCall ''generator_u'' (generator_u (self w)) training x))
   }"

definition do_generator_E ::
  "('a, 'ns, 'opt) host \<Rightarrow> ('a, 'ns, 'opt) world \<Rightarrow> bool option \<Rightarrow> 'a tensor \<Rightarrow>
   ('a tensor \<times> ('a, 'ns, 'opt) world) option" where
  "do_generator_E h w training x = do {
     y \<leftarrow> model_call h (generator_E (self w)) training x;
     Some (y, record_call w (ModelCall ''generator_E'' (generator_E (self w)) training x))
   }"

text \<open>\<^verbatim>\<open>discriminator.discriminator(x, training=...)\<close>.\<close>

definition do_discriminator ::
  "('a, 'ns, 'opt) world \<Rightarrow> 'a discriminator_obj \<Rightarrow> bool option \<Rightarrow> 'a tensor \<Rightarrow>
   ('a tensor \<times> ('a, 'ns, 'opt) world) option" where
  "do_discriminator w d training x = do {
     y \<leftarrow> discriminator d training x;
     Some (y, record_call w (DiscriminatorCall training x))
   }"

text \<open>\<^verbatim>\<open>tape.watch(t)\<close>.\<close>

definition do_watch ::
  "('a, 'ns, 'opt) world \<Rightarrow> 'a tape \<Rightarrow> 'a tensor \<Rightarrow> 'a tape \<times> ('a, 'ns, 'opt) world" where
  "do_watch w tape' t = (tape'\<lparr>watched := watched tape' @ [t]\<rparr>, record_call w (Watch t))"

text \<open>\<^verbatim>\<open>self.pde.evaluate_loss(terms, tape)\<close> and
  \<^verbatim>\<open>self.boundary_conditions.evaluate_loss(self.generator_u, self.generator_E, tape)\<close>.\<close>

definition do_pde_evaluate_loss ::
  "('a, 'ns, 'opt) world \<Rightarrow> (string \<times> 'a tensor) list \<Rightarrow> 'a tape \<Rightarrow>
   ('a tensor \<times> ('a, 'ns, 'opt) world) option" where
  "do_pde_evaluate_loss w terms tape' = do {
     l \<leftarrow> pde_evaluate_loss (pde (self w)) terms tape';
     Some (l, record_call w (PdeEvaluateLoss terms tape'))
   }"

definition do_bc_evaluate_loss ::
  "('a, 'ns, 'opt) world \<Rightarrow> 'a tape \<Rightarrow> ('a tensor \<times> ('a, 'ns, 'opt) world) option" where
  "do_bc_evaluate_loss w tape' = do {
     l \<leftarrow> bc_evaluate_loss (boundary_conditions (self w))
            (generator_u (self w)) (generator_E (self w)) tape';
     Some (l, record_call w
               (BcEvaluateLoss (generator_u (self w)) (generator_E (self w)) tape'))
   }"

text \<open>\<^verbatim>\<open>tape.gradient(target, sources)\<close>.\<close>

definition do_gradient ::
  "('a, 'ns, 'opt) host \<Rightarrow> ('a, 'ns, 'opt) world \<Rightarrow> 'a tape \<Rightarrow> 'a tensor \<Rightarrow>
   'a tensor list list \<Rightarrow> ('a tensor list list \<times> ('a, 'ns, 'opt) world) option" where
  "do_gradient h w tape' target sources = do {
     gs \<leftarrow> gradient h tape' target sources;
     Some (gs, record_call w (TapeGradient tape' target sources))
   }"

text \<open>
  \<^verbatim>\<open>self.gen_opt.apply_gradients(grads_and_vars)\<close>: the optimizer object advances and
  returns the new value of each variable it was given, which \<open>assign\<close> writes into the
  variable list those variables came from.
\<close>

definition do_apply_gradients ::
  "('a, 'ns, 'opt) host \<Rightarrow> ('a, 'ns, 'opt) world \<Rightarrow> ('a tensor \<times> 'a tensor) list \<Rightarrow>
   ('a tensor list \<times> ('a, 'ns, 'opt) world) option" where
  "do_apply_gradients h w grads_and_vars = do {
     (new_values, opt) \<leftarrow> apply_gradients h (gen_opt (self w)) grads_and_vars;
     Some (new_values, record_call (w\<lparr>self := (self w)\<lparr>gen_opt := opt\<rparr>\<rparr>)
                         (ApplyGradients grads_and_vars))
   }"

definition assign :: "'a tensor list \<Rightarrow> 'a tensor list \<Rightarrow> 'a tensor list" where
  "assign variables new_values =
     take (length variables) new_values @ drop (length new_values) variables"

text \<open>\<^verbatim>\<open>xs[i]\<close> on a Python list: IndexError past the end.\<close>

definition index :: "'b list \<Rightarrow> nat \<Rightarrow> 'b option" where
  "index xs i = (if i < length xs then Some (xs ! i) else None)"

subsection \<open>\<^verbatim>\<open>_model\<close> and the constructor\<close>

text \<open>\<^verbatim>\<open>tf.keras.Sequential()\<close> and \<^verbatim>\<open>model.add(layer)\<close>.\<close>

definition Sequential :: "'a sequential" where
  "Sequential = \<lparr>layers = [], trainable_variables = []\<rparr>"

definition model_add :: "('a, 'ns, 'opt) host \<Rightarrow> 'a sequential \<Rightarrow> layer \<Rightarrow> 'a sequential" where
  "model_add h model l =
     \<lparr>layers = layers model @ [l],
      trainable_variables = trainable_variables model @ new_variables h (layers model) l\<rparr>"

text \<open>\<^verbatim>\<open>Generator._model\<close> (an Isabelle name cannot start with an underscore: \<open>private_model\<close>).\<close>

definition private_model :: "('a, 'ns, 'opt) host \<Rightarrow> nat list \<Rightarrow> nat \<Rightarrow> 'a sequential" where
  "private_model h input_shape' dimensionality =
     (let model = Sequential;
          model = model_add h model (Input input_shape');
          model = model_add h model Flatten;
          model = model_add h model (Dense 128 (Some ''glorot_uniform'') (Some ''zeros''));
          model = model_add h model (Activation ''tanh'');
          model = model_add h model (Dense 128 None None);
          model = model_add h model (Activation ''tanh'');
          model = model_add h model (Dense 128 None None);
          model = model_add h model (Activation ''tanh'');
          model = model_add h model (Dense 128 None None);
          model = model_add h model (Activation ''tanh'');
          model = model_add h model (Dense dimensionality None None)
      in model)"

text \<open>\<^verbatim>\<open>Generator.__init__\<close>.\<close>

definition init ::
  "('a, 'ns, 'opt) host \<Rightarrow> nat list \<Rightarrow> 'a pde_obj \<Rightarrow> 'a bc_obj \<Rightarrow> 'opt \<Rightarrow> 'ns \<Rightarrow>
   ('a, 'ns, 'opt) generator" where
  "init h input_shape' pde' boundary_conditions' optimizer noise_sampler' =
     \<lparr>input_shape = input_shape',
      generator_u = private_model h input_shape' 2,
      generator_E = private_model h input_shape' 1,
      gen_opt = optimizer,
      noise_sampler = noise_sampler',
      pde = pde',
      boundary_conditions = boundary_conditions'\<rparr>"

subsection \<open>\<^verbatim>\<open>__call__\<close>\<close>

definition call ::
  "('a, 'ns, 'opt) host \<Rightarrow> ('a, 'ns, 'opt) world \<Rightarrow> 'a tensor \<Rightarrow> 'a tensor \<Rightarrow>
   (('a tensor \<times> 'a tensor) \<times> ('a, 'ns, 'opt) world) option" where
  "call h w gen_input noise = do {
     u_in \<leftarrow> tf_concat [gen_input, noise] 1;
     (u_pred, w) \<leftarrow> do_generator_u h w None u_in;
     E_in \<leftarrow> tf_concat [gen_input, noise] 1;
     (E_pred, w) \<leftarrow> do_generator_E h w None E_in;
     Some ((u_pred, E_pred), w)
   }"

subsection \<open>\<^verbatim>\<open>_loss\<close> and \<^verbatim>\<open>step\<close>\<close>

text \<open>\<^verbatim>\<open>Generator._loss(fake_output, tape, **terms)\<close>.\<close>

definition private_loss ::
  "('a, 'ns, 'opt) host \<Rightarrow> ('a, 'ns, 'opt) world \<Rightarrow> 'a tensor \<Rightarrow> 'a tape \<Rightarrow>
   (string \<times> 'a tensor) list \<Rightarrow>
   (('a tensor \<times> 'a tensor \<times> 'a tensor) \<times> ('a, 'ns, 'opt) world) option" where
  "private_loss h w fake_output tape' terms = do {
     let wgan_gen_loss = negative h (reduce_mean h fake_output);
     (pde_loss, w) \<leftarrow> do_pde_evaluate_loss w terms tape';
     (bc_loss, w) \<leftarrow> do_bc_evaluate_loss w tape';
     Some ((wgan_gen_loss, pde_loss, bc_loss), w)
   }"

text \<open>
  \<^verbatim>\<open>Generator.step(inputs, discriminator, batch_size)\<close>. The body of the
  \<^verbatim>\<open>with tf.GradientTape(persistent=True)\<close> block runs down to \<open>total_loss\<close>; the
  gradient and the two optimizer calls follow it.

  The method carries the decorator \<^verbatim>\<open>@tf.function\<close>: TensorFlow runs the Python body
  when it traces the method into a graph and replays that graph on the calls that follow.
  The embedding is the computation the body describes, performed at every call; it assumes
  that the replayed graph computes what the body does, and says nothing of how often the
  Python statements themselves are executed.
\<close>

definition step ::
  "('a, 'ns, 'opt) host \<Rightarrow> ('a, 'ns, 'opt) world \<Rightarrow> (string \<rightharpoonup> 'a tensor) \<Rightarrow>
   'a discriminator_obj \<Rightarrow> nat \<Rightarrow>
   (('a tensor \<times> 'a tensor \<times> 'a tensor) \<times> ('a, 'ns, 'opt) world) option" where
  "step h w inputs discriminator' batch_size = do {
     let num_pde = 100;
     let gen_tape = \<lparr>persistent = True, watched = []\<rparr>;
     X_u \<leftarrow> inputs ''X_u'';
     X_f \<leftarrow> inputs ''X_f'';
     X_u_g \<leftarrow> tf_tile X_u [batch_size, 1];
     n_u \<leftarrow> shape_at X_u 0;
     (noise_u, w) \<leftarrow> do_sample_noise h w n_u batch_size;
     n_f \<leftarrow> shape_at X_f 0;
     (noise_f, w) \<leftarrow> do_sample_noise h w n_f num_pde;
     u_inputs \<leftarrow> tf_concat [X_u_g, noise_u] 1;
     (generated_u, w) \<leftarrow> do_generator_u h w (Some True) u_inputs;
     generated_snapshots \<leftarrow> tf_reshape generated_u [int batch_size, -1];
     X_f_g \<leftarrow> tf_tile X_f [num_pde, 1];
     let (gen_tape, w) = do_watch w gen_tape X_f_g;
     u_f_inputs \<leftarrow> tf_concat [X_f_g, noise_f] 1;
     (generated_f_u, w) \<leftarrow> do_generator_u h w (Some True) u_f_inputs;
     E_f_inputs \<leftarrow> tf_concat [X_f_g, noise_f] 1;
     (generated_f_E, w) \<leftarrow> do_generator_E h w (Some True) E_f_inputs;
     (fake_output, w) \<leftarrow> do_discriminator w discriminator' (Some True) generated_snapshots;
     ((gen_loss, pde_loss, bc_loss), w) \<leftarrow>
        private_loss h w fake_output gen_tape
          [(''X'', X_f_g), (''u'', generated_f_u), (''E'', generated_f_E)];
     gen_plus_pde \<leftarrow> add h gen_loss pde_loss;
     total_loss \<leftarrow> add h gen_plus_pde bc_loss;
     (gradients_of_generators, w) \<leftarrow>
        do_gradient h w gen_tape total_loss
          [trainable_variables (generator_u (self w)),
           trainable_variables (generator_E (self w))];
     grads_u \<leftarrow> index gradients_of_generators 0;
     (new_u, w) \<leftarrow>
        do_apply_gradients h w (zip grads_u (trainable_variables (generator_u (self w))));
     let w = w\<lparr>self := (self w)\<lparr>generator_u := (generator_u (self w))
                \<lparr>trainable_variables :=
                   assign (trainable_variables (generator_u (self w))) new_u\<rparr>\<rparr>\<rparr>;
     grads_E \<leftarrow> index gradients_of_generators 1;
     (new_E, w) \<leftarrow>
        do_apply_gradients h w (zip grads_E (trainable_variables (generator_E (self w))));
     let w = w\<lparr>self := (self w)\<lparr>generator_E := (generator_E (self w))
                \<lparr>trainable_variables :=
                   assign (trainable_variables (generator_E (self w))) new_E\<rparr>\<rparr>\<rparr>;
     Some ((gen_loss, pde_loss, bc_loss), w)
   }"

subsection \<open>\<^verbatim>\<open>generate\<close>\<close>

definition generate ::
  "('a, 'ns, 'opt) host \<Rightarrow> ('a, 'ns, 'opt) world \<Rightarrow> 'a tensor \<Rightarrow> nat \<Rightarrow>
   (('a tensor \<times> 'a tensor) \<times> ('a, 'ns, 'opt) world) option" where
  "generate h w X num_samples = do {
     n \<leftarrow> shape_at X 0;
     (noise, w) \<leftarrow> do_sample_noise h w n num_samples;
     X_g \<leftarrow> tf_tile X [num_samples, 1];
     u_inputs \<leftarrow> tf_concat [X_g, noise] 1;
     (generated_u, w) \<leftarrow> do_generator_u h w (Some False) u_inputs;
     n \<leftarrow> shape_at X 0;
     generated_u \<leftarrow> tf_reshape generated_u [int num_samples, int n, -1];
     E_inputs \<leftarrow> tf_concat [X_g, noise] 1;
     (generated_E, w) \<leftarrow> do_generator_E h w (Some False) E_inputs;
     n \<leftarrow> shape_at X 0;
     generated_E \<leftarrow> tf_reshape generated_E [int num_samples, int n, -1];
     Some ((generated_u, generated_E), w)
   }"

subsection \<open>\<^verbatim>\<open>save\<close> and \<^verbatim>\<open>load\<close>\<close>

definition save :: "('a, 'ns, 'opt) world \<Rightarrow> path \<Rightarrow> ('a, 'ns, 'opt) world" where
  "save w save_dir =
     (let w = w\<lparr>files := (files w)(joinpath save_dir ''generator_u.h5'' \<mapsto>
                                       generator_u (self w))\<rparr>;
          w = w\<lparr>files := (files w)(joinpath save_dir ''generator_E.h5'' \<mapsto>
                                       generator_E (self w))\<rparr>
      in w)"

definition load :: "('a, 'ns, 'opt) world \<Rightarrow> path \<Rightarrow> ('a, 'ns, 'opt) world option" where
  "load w model_dir = do {
     loaded_u \<leftarrow> files w (joinpath model_dir ''generator_u.h5'');
     let w = w\<lparr>self := (self w)\<lparr>generator_u := loaded_u\<rparr>\<rparr>;
     loaded_E \<leftarrow> files w (joinpath model_dir ''generator_E.h5'');
     let w = w\<lparr>self := (self w)\<lparr>generator_E := loaded_E\<rparr>\<rparr>;
     Some w
   }"

subsection \<open>Notions the statements use\<close>

text \<open>What the claim about the recipe speaks of: the units and the activation after each
  Dense layer of a stack.\<close>

fun dense_units :: "layer list \<Rightarrow> nat list" where
  "dense_units [] = []"
| "dense_units (Dense n k b # ls) = n # dense_units ls"
| "dense_units (l # ls) = dense_units ls"

fun dense_activations :: "layer list \<Rightarrow> string option list" where
  "dense_activations [] = []"
| "dense_activations (Dense n k b # Activation a # ls) = Some a # dense_activations ls"
| "dense_activations (Dense n k b # ls) = None # dense_activations ls"
| "dense_activations (l # ls) = dense_activations ls"

text \<open>The calls of one kind in a stretch of the trace, with their arguments.\<close>

fun noise_requests :: "'a call list \<Rightarrow> (nat \<times> nat) list" where
  "noise_requests [] = []"
| "noise_requests (SampleNoise n count # cs) = (n, count) # noise_requests cs"
| "noise_requests (c # cs) = noise_requests cs"

fun model_inputs :: "'a call list \<Rightarrow> (string \<times> bool option \<times> 'a tensor) list" where
  "model_inputs [] = []"
| "model_inputs (ModelCall name m training x # cs) = (name, training, x) # model_inputs cs"
| "model_inputs (c # cs) = model_inputs cs"

fun gradient_targets :: "'a call list \<Rightarrow> 'a tensor list" where
  "gradient_targets [] = []"
| "gradient_targets (TapeGradient tape' target sources # cs) = target # gradient_targets cs"
| "gradient_targets (c # cs) = gradient_targets cs"

fun applied :: "'a call list \<Rightarrow> ('a tensor \<times> 'a tensor) list list" where
  "applied [] = []"
| "applied (ApplyGradients gvs # cs) = gvs # applied cs"
| "applied (c # cs) = applied cs"

text \<open>
  What Keras does with the shape of a batch on a stack of the recipe of \<^verbatim>\<open>_model\<close>
  (Input, Flatten, Dense layers): one row of \<open>k\<close> values for each index of axis 0, where
  \<open>k\<close> is the number of units of the last Dense layer.
\<close>

definition recipe_output_shape :: "('a, 'ns, 'opt) host \<Rightarrow> bool" where
  "recipe_output_shape h =
     (\<forall>m training x y s k n rest.
        layers m = layers (private_model h s k) \<longrightarrow> shape x = n # rest \<longrightarrow>
        model_call h m training x = Some y \<longrightarrow> shape y = [n, k])"

text \<open>The shapes of the pair returned by \<^verbatim>\<open>generate\<close>.\<close>

definition returned_shapes ::
  "(('a tensor \<times> 'a tensor) \<times> ('a, 'ns, 'opt) world) option \<Rightarrow> (nat list \<times> nat list) option" where
  "returned_shapes res =
     (case res of None \<Rightarrow> None | Some ((u, e), w) \<Rightarrow> Some (shape u, shape e))"

subsection \<open>A small host on which the methods run\<close>

text \<open>
  A toy instance of the libraries and collaborators, over integer elements, used to run the
  methods on concrete inputs: a network answers with one row per input row, filled with
  the sum of its variables; the noise sampler and the optimizer count their calls.
\<close>

definition output_units :: "layer list \<Rightarrow> nat option" where
  "output_units ls = (case rev ls of Dense k ki bi # before \<Rightarrow> Some k | _ \<Rightarrow> None)"

definition toy_model_call :: "int sequential \<Rightarrow> bool option \<Rightarrow> int tensor \<Rightarrow> int tensor option" where
  "toy_model_call m training x =
     (case (shape x, output_units (layers m)) of
        (n # rest, Some k) \<Rightarrow>
          Some (Tensor [n, k]
                 (replicate (n * k) (sum_list (concat (map data (trainable_variables m))))))
      | _ \<Rightarrow> None)"

definition toy_host :: "(int, nat, nat) host" where
  "toy_host =
     \<lparr>new_variables = (\<lambda>ls l. case l of Dense n ki bi \<Rightarrow> [Tensor [1] [1], Tensor [1] [0]]
                                | _ \<Rightarrow> []),
      model_call = toy_model_call,
      sample_noise = (\<lambda>s n count.
         Some (Tensor [n * count, 1] (replicate (n * count) (int s)), Suc s)),
      reduce_mean = (\<lambda>t. Tensor [] [sum_list (data t) div int (length (data t))]),
      negative = (\<lambda>t. Tensor (shape t) (map uminus (data t))),
      add = (\<lambda>a b. if shape a = shape b
                     then Some (Tensor (shape a) (map2 (+) (data a) (data b))) else None),
      gradient = (\<lambda>tape' target sources.
         Some (map (map (\<lambda>v. Tensor (shape v) (map (\<lambda>x. 1) (data v)))) sources)),
      apply_gradients = (\<lambda>opt gvs.
         Some (map (\<lambda>(g, v). Tensor (shape v) (map2 (-) (data v) (data g))) gvs, Suc opt))\<rparr>"

definition toy_pde :: "int pde_obj" where
  "toy_pde = \<lparr>pde_evaluate_loss = (\<lambda>terms tape'. Some (Tensor [] [2]))\<rparr>"

definition toy_bc :: "int bc_obj" where
  "toy_bc = \<lparr>bc_evaluate_loss = (\<lambda>gu gE tape'. Some (Tensor [] [3]))\<rparr>"

definition toy_discriminator :: "int discriminator_obj" where
  "toy_discriminator =
     \<lparr>discriminator = (\<lambda>training x. Some (Tensor [hd (shape x), 1] (replicate (hd (shape x)) 4)))\<rparr>"

definition toy_world :: "(int, nat, nat) world" where
  "toy_world = \<lparr>self = init toy_host [2] toy_pde toy_bc 0 0, trace = [], files = Map.empty\<rparr>"

definition toy_inputs :: "string \<rightharpoonup> int tensor" where
  "toy_inputs = [''X_u'' \<mapsto> Tensor [1, 1] [5], ''X_f'' \<mapsto> Tensor [1, 1] [7]]"

section \<open>Theorems\<close>

lemma layers_private_model:
  "layers (private_model h s k) =
     [Input s, Flatten,
      Dense 128 (Some ''glorot_uniform'') (Some ''zeros''), Activation ''tanh'',
      Dense 128 None None, Activation ''tanh'',
      Dense 128 None None, Activation ''tanh'',
      Dense 128 None None, Activation ''tanh'',
      Dense k None None]"
  by (simp add: private_model_def model_add_def Sequential_def)

subsection \<open>Shapes produced by the tensor operations\<close>

lemma tf_tile_rank2:
  "shape t = [n, d] \<Longrightarrow> \<exists>y. tf_tile t [m, 1] = Some y \<and> shape y = [m * n, d]"
  by (simp add: tf_tile_def)

lemma tf_tile_SomeD:
  "tf_tile t [m, 1] = Some y \<Longrightarrow> \<exists>n d. shape t = [n, d] \<and> shape y = [m * n, d]"
  by (auto simp: tf_tile_def split: list.splits)

lemma tf_concat_pair:
  "shape a = [n, p] \<Longrightarrow> shape b = [n, q] \<Longrightarrow>
   \<exists>y. tf_concat [a, b] 1 = Some y \<and> shape y = [n, p + q]"
  by (simp add: tf_concat_def tf_concat_axis1_def concat_compatible_def)

lemma tf_concat_SomeD:
  "tf_concat [a, b] 1 = Some y \<Longrightarrow> shape a = n # rest \<Longrightarrow> \<exists>rest'. shape y = n # rest'"
  by (auto simp: tf_concat_def tf_concat_axis1_def Let_def split: if_splits)

lemma tf_reshape_rows:
  "shape t = [b * r, k] \<Longrightarrow> 0 < b \<Longrightarrow>
   \<exists>y. tf_reshape t [int b, -1] = Some y \<and> shape y = [b, r * k]"
  by (simp add: tf_reshape_def Let_def)

lemma tf_reshape_samples:
  "shape t = [m * n, k] \<Longrightarrow> 0 < m \<Longrightarrow> 0 < n \<Longrightarrow> tf_reshape t [int m, int n, -1] = Some y \<Longrightarrow>
   shape y = [m, n, k]"
  by (auto simp: tf_reshape_def Let_def split: if_splits)

lemma tf_tile_shape_at:
  "tf_tile X [m, 1] = Some Y \<Longrightarrow> shape_at X 0 = Some n \<Longrightarrow>
   \<exists>dim. shape X = [n, dim] \<and> shape Y = [m * n, dim]"
  by (auto simp: tf_tile_def shape_at_def split: list.splits)

subsection \<open>What a successful run of each method consists of\<close>

lemma do_sample_noise_Some:
  "do_sample_noise h w n c = Some (t, w') \<longleftrightarrow>
     (\<exists>s'. sample_noise h (noise_sampler (self w)) n c = Some (t, s') \<and>
        w' = record_call (w\<lparr>self := (self w)\<lparr>noise_sampler := s'\<rparr>\<rparr>) (SampleNoise n c))"
  by (auto simp: do_sample_noise_def bind_eq_Some_conv)

lemma do_generator_u_Some:
  "do_generator_u h w tr x = Some (y, w') \<longleftrightarrow>
     (model_call h (generator_u (self w)) tr x = Some y \<and>
      w' = record_call w (ModelCall ''generator_u'' (generator_u (self w)) tr x))"
  by (auto simp: do_generator_u_def bind_eq_Some_conv)

lemma do_generator_E_Some:
  "do_generator_E h w tr x = Some (y, w') \<longleftrightarrow>
     (model_call h (generator_E (self w)) tr x = Some y \<and>
      w' = record_call w (ModelCall ''generator_E'' (generator_E (self w)) tr x))"
  by (auto simp: do_generator_E_def bind_eq_Some_conv)

lemma do_discriminator_Some:
  "do_discriminator w d tr x = Some (y, w') \<longleftrightarrow>
     (discriminator d tr x = Some y \<and> w' = record_call w (DiscriminatorCall tr x))"
  by (auto simp: do_discriminator_def bind_eq_Some_conv)

lemma do_pde_evaluate_loss_Some:
  "do_pde_evaluate_loss w terms tp = Some (l, w') \<longleftrightarrow>
     (pde_evaluate_loss (pde (self w)) terms tp = Some l \<and>
      w' = record_call w (PdeEvaluateLoss terms tp))"
  by (auto simp: do_pde_evaluate_loss_def bind_eq_Some_conv)

lemma do_bc_evaluate_loss_Some:
  "do_bc_evaluate_loss w tp = Some (l, w') \<longleftrightarrow>
     (bc_evaluate_loss (boundary_conditions (self w)) (generator_u (self w))
        (generator_E (self w)) tp = Some l \<and>
      w' = record_call w (BcEvaluateLoss (generator_u (self w)) (generator_E (self w)) tp))"
  by (auto simp: do_bc_evaluate_loss_def bind_eq_Some_conv)

lemma do_gradient_Some:
  "do_gradient h w tp target sources = Some (gs, w') \<longleftrightarrow>
     (gradient h tp target sources = Some gs \<and>
      w' = record_call w (TapeGradient tp target sources))"
  by (auto simp: do_gradient_def bind_eq_Some_conv)

lemma do_apply_gradients_Some:
  "do_apply_gradients h w gvs = Some (vs, w') \<longleftrightarrow>
     (\<exists>opt. apply_gradients h (gen_opt (self w)) gvs = Some (vs, opt) \<and>
        w' = record_call (w\<lparr>self := (self w)\<lparr>gen_opt := opt\<rparr>\<rparr>) (ApplyGradients gvs))"
  by (auto simp: do_apply_gradients_def bind_eq_Some_conv)

lemma private_loss_Some:
  "private_loss h w fake tp terms = Some ((gl, pl, bl), w') \<longleftrightarrow>
     (gl = negative h (reduce_mean h fake) \<and>
      pde_evaluate_loss (pde (self w)) terms tp = Some pl \<and>
      bc_evaluate_loss (boundary_conditions (self w)) (generator_u (self w))
        (generator_E (self w)) tp = Some bl \<and>
      w' = record_call (record_call w (PdeEvaluateLoss terms tp))
             (BcEvaluateLoss (generator_u (self w)) (generator_E (self w)) tp))"
  by (auto simp: private_loss_def bind_eq_Some_conv do_pde_evaluate_loss_Some
      do_bc_evaluate_loss_Some record_call_def Let_def)

lemma step_SomeE:
  assumes "step h w inputs d bs = Some (r, w')"
  obtains X_u X_f X_u_g n_u noise_u s1 n_f noise_f s2 u_inputs generated_u snapshots
    X_f_g f_inputs generated_f_u generated_f_E fake_output pde_loss bc_loss gen_plus_pde
    total_loss grads grads_u new_u opt1 grads_E new_E opt2
  where "inputs ''X_u'' = Some X_u" and "inputs ''X_f'' = Some X_f"
    and "tf_tile X_u [bs, 1] = Some X_u_g"
    and "shape_at X_u 0 = Some n_u"
    and "sample_noise h (noise_sampler (self w)) n_u bs = Some (noise_u, s1)"
    and "shape_at X_f 0 = Some n_f"
    and "sample_noise h s1 n_f 100 = Some (noise_f, s2)"
    and "tf_concat [X_u_g, noise_u] 1 = Some u_inputs"
    and "model_call h (generator_u (self w)) (Some True) u_inputs = Some generated_u"
    and "tf_reshape generated_u [int bs, -1] = Some snapshots"
    and "tf_tile X_f [100, 1] = Some X_f_g"
    and "tf_concat [X_f_g, noise_f] 1 = Some f_inputs"
    and "model_call h (generator_u (self w)) (Some True) f_inputs = Some generated_f_u"
    and "model_call h (generator_E (self w)) (Some True) f_inputs = Some generated_f_E"
    and "discriminator d (Some True) snapshots = Some fake_output"
    and "pde_evaluate_loss (pde (self w))
           [(''X'', X_f_g), (''u'', generated_f_u), (''E'', generated_f_E)]
           \<lparr>persistent = True, watched = [X_f_g]\<rparr> = Some pde_loss"
    and "bc_evaluate_loss (boundary_conditions (self w)) (generator_u (self w))
           (generator_E (self w)) \<lparr>persistent = True, watched = [X_f_g]\<rparr> = Some bc_loss"
    and "add h (negative h (reduce_mean h fake_output)) pde_loss = Some gen_plus_pde"
    and "add h gen_plus_pde bc_loss = Some total_loss"
    and "gradient h \<lparr>persistent = True, watched = [X_f_g]\<rparr> total_loss
           [trainable_variables (generator_u (self w)),
            trainable_variables (generator_E (self w))] = Some grads"
    and "index grads 0 = Some grads_u"
    and "apply_gradients h (gen_opt (self w))
           (zip grads_u (trainable_variables (generator_u (self w)))) = Some (new_u, opt1)"
    and "index grads 1 = Some grads_E"
    and "apply_gradients h opt1
           (zip grads_E (trainable_variables (generator_E (self w)))) = Some (new_E, opt2)"
    and "r = (negative h (reduce_mean h fake_output), pde_loss, bc_loss)"
    and "trace w' = trace w @
           [SampleNoise n_u bs, SampleNoise n_f 100,
            ModelCall ''generator_u'' (generator_u (self w)) (Some True) u_inputs,
            Watch X_f_g,
            ModelCall ''generator_u'' (generator_u (self w)) (Some True) f_inputs,
            ModelCall ''generator_E'' (generator_E (self w)) (Some True) f_inputs,
            DiscriminatorCall (Some True) snapshots,
            PdeEvaluateLoss [(''X'', X_f_g), (''u'', generated_f_u), (''E'', generated_f_E)]
              \<lparr>persistent = True, watched = [X_f_g]\<rparr>,
            BcEvaluateLoss (generator_u (self w)) (generator_E (self w))
              \<lparr>persistent = True, watched = [X_f_g]\<rparr>,
            TapeGradient \<lparr>persistent = True, watched = [X_f_g]\<rparr> total_loss
              [trainable_variables (generator_u (self w)),
               trainable_variables (generator_E (self w))],
            ApplyGradients (zip grads_u (trainable_variables (generator_u (self w)))),
            ApplyGradients (zip grads_E (trainable_variables (generator_E (self w))))]"
    and "self w' = (self w)
           \<lparr>generator_u := (generator_u (self w))
              \<lparr>trainable_variables :=
                 assign (trainable_variables (generator_u (self w))) new_u\<rparr>,
            generator_E := (generator_E (self w))
              \<lparr>trainable_variables :=
                 assign (trainable_variables (generator_E (self w))) new_E\<rparr>,
            gen_opt := opt2, noise_sampler := s2\<rparr>"
    and "files w' = files w"
proof -
  from assms show thesis
    unfolding step_def Let_def
    apply (clarsimp simp: bind_eq_Some_conv do_sample_noise_Some do_generator_u_Some do_generator_E_Some
        do_discriminator_Some do_gradient_Some do_apply_gradients_Some do_watch_def
        private_loss_Some record_call_def split: prod.splits)
    apply (rule that; assumption?)
    apply simp_all
    done
qed

lemma generate_SomeE:
  assumes "generate h w X m = Some (r, w')"
  obtains n noise s1 X_g x generated_u generated_E u_samples E_samples
  where "shape_at X 0 = Some n"
    and "sample_noise h (noise_sampler (self w)) n m = Some (noise, s1)"
    and "tf_tile X [m, 1] = Some X_g"
    and "tf_concat [X_g, noise] 1 = Some x"
    and "model_call h (generator_u (self w)) (Some False) x = Some generated_u"
    and "tf_reshape generated_u [int m, int n, -1] = Some u_samples"
    and "model_call h (generator_E (self w)) (Some False) x = Some generated_E"
    and "tf_reshape generated_E [int m, int n, -1] = Some E_samples"
    and "r = (u_samples, E_samples)"
    and "trace w' = trace w @
           [SampleNoise n m,
            ModelCall ''generator_u'' (generator_u (self w)) (Some False) x,
            ModelCall ''generator_E'' (generator_E (self w)) (Some False) x]"
    and "self w' = (self w)\<lparr>noise_sampler := s1\<rparr>"
    and "files w' = files w"
proof -
  from assms show thesis
    unfolding generate_def
    apply (clarsimp simp: bind_eq_Some_conv do_sample_noise_Some do_generator_u_Some
        do_generator_E_Some record_call_def split: prod.splits)
    apply (rule that; assumption?)
    apply simp_all
    done
qed

lemma call_SomeE:
  assumes "call h w gen_input noise = Some (r, w')"
  obtains x u_pred E_pred
  where "tf_concat [gen_input, noise] 1 = Some x"
    and "model_call h (generator_u (self w)) None x = Some u_pred"
    and "model_call h (generator_E (self w)) None x = Some E_pred"
    and "r = (u_pred, E_pred)"
    and "trace w' = trace w @
           [ModelCall ''generator_u'' (generator_u (self w)) None x,
            ModelCall ''generator_E'' (generator_E (self w)) None x]"
    and "self w' = self w"
    and "files w' = files w"
proof -
  from assms show thesis
    unfolding call_def
    apply (clarsimp simp: bind_eq_Some_conv do_generator_u_Some
        do_generator_E_Some record_call_def split: prod.splits)
    apply (rule that; assumption?)
    apply simp_all
    done
qed

text \<open>Conversely, \<^verbatim>\<open>step\<close> returns as soon as every call it makes returns.\<close>

lemma step_returns:
  assumes "inputs ''X_u'' = Some X_u" and "inputs ''X_f'' = Some X_f"
    and "tf_tile X_u [bs, 1] = Some X_u_g"
    and "shape_at X_u 0 = Some n_u"
    and "sample_noise h (noise_sampler (self w)) n_u bs = Some (noise_u, s1)"
    and "shape_at X_f 0 = Some n_f"
    and "sample_noise h s1 n_f 100 = Some (noise_f, s2)"
    and "tf_concat [X_u_g, noise_u] 1 = Some u_inputs"
    and "model_call h (generator_u (self w)) (Some True) u_inputs = Some generated_u"
    and "tf_reshape generated_u [int bs, -1] = Some snapshots"
    and "tf_tile X_f [100, 1] = Some X_f_g"
    and "tf_concat [X_f_g, noise_f] 1 = Some f_inputs"
    and "model_call h (generator_u (self w)) (Some True) f_inputs = Some generated_f_u"
    and "model_call h (generator_E (self w)) (Some True) f_inputs = Some generated_f_E"
    and "discriminator d (Some True) snapshots = Some fake_output"
    and "pde_evaluate_loss (pde (self w))
           [(''X'', X_f_g), (''u'', generated_f_u), (''E'', generated_f_E)]
           \<lparr>persistent = True, watched = [X_f_g]\<rparr> = Some pde_loss"
    and "bc_evaluate_loss (boundary_conditions (self w)) (generator_u (self w))
           (generator_E (self w)) \<lparr>persistent = True, watched = [X_f_g]\<rparr> = Some bc_loss"
    and "add h (negative h (reduce_mean h fake_output)) pde_loss = Some gen_plus_pde"
    and "add h gen_plus_pde bc_loss = Some total_loss"
    and "gradient h \<lparr>persistent = True, watched = [X_f_g]\<rparr> total_loss
           [trainable_variables (generator_u (self w)),
            trainable_variables (generator_E (self w))] = Some grads"
    and "index grads 0 = Some grads_u"
    and "apply_gradients h (gen_opt (self w))
           (zip grads_u (trainable_variables (generator_u (self w)))) = Some (new_u, opt1)"
    and "index grads 1 = Some grads_E"
    and "apply_gradients h opt1
           (zip grads_E (trainable_variables (generator_E (self w)))) = Some (new_E, opt2)"
  shows "\<exists>w'. step h w inputs d bs =
           Some ((negative h (reduce_mean h fake_output), pde_loss, bc_loss), w')"
  using assms unfolding step_def
  by (simp add: Let_def do_sample_noise_def do_generator_u_def do_generator_E_def
      do_discriminator_def do_watch_def private_loss_def do_pde_evaluate_loss_def
      do_bc_evaluate_loss_def do_gradient_def do_apply_gradients_def record_call_def)

subsection \<open>The toy host runs\<close>

lemma recipe_output_shape_toy: "recipe_output_shape toy_host"
  by (auto simp: recipe_output_shape_def toy_host_def toy_model_call_def output_units_def
      layers_private_model split: list.splits)

lemma toy_model_call_recipe:
  "layers m = layers (private_model toy_host s k) \<Longrightarrow> shape x = n # rest \<Longrightarrow>
   \<exists>y. model_call toy_host m training x = Some y \<and> shape y = [n, k]"
  by (simp add: toy_host_def toy_model_call_def output_units_def layers_private_model)

lemma toy_step_returns:
  "\<exists>losses w'. step toy_host toy_world toy_inputs toy_discriminator 2 = Some (losses, w')"
proof -
  let ?h = toy_host and ?w = toy_world
  let ?X_u = "Tensor [1, 1] [5] :: int tensor" and ?X_f = "Tensor [1, 1] [7] :: int tensor"
  have gu: "layers (generator_u (self ?w)) = layers (private_model ?h [2] 2)"
    and gE: "layers (generator_E (self ?w)) = layers (private_model ?h [2] 1)"
    by (simp_all add: toy_world_def init_def)
  have i1: "toy_inputs ''X_u'' = Some ?X_u" and i2: "toy_inputs ''X_f'' = Some ?X_f"
    by (simp_all add: toy_inputs_def)
  obtain X_u_g where t1: "tf_tile ?X_u [2, 1] = Some X_u_g" and st1: "shape X_u_g = [2 * 1, 1]"
    using tf_tile_rank2 [of ?X_u 1 1 2] by auto
  have n1: "shape_at ?X_u 0 = Some 1" and n2: "shape_at ?X_f 0 = Some 1"
    by (simp_all add: shape_at_def)
  obtain noise_u s1 where sn1: "sample_noise ?h (noise_sampler (self ?w)) 1 2 = Some (noise_u, s1)"
    and ssn1: "shape noise_u = [2 * 1, 1]"
    by (simp add: toy_host_def)
  obtain noise_f s2 where sn2: "sample_noise ?h s1 1 100 = Some (noise_f, s2)"
    and ssn2: "shape noise_f = [100 * 1, 1]"
    by (simp add: toy_host_def)
  obtain u_inputs where c1: "tf_concat [X_u_g, noise_u] 1 = Some u_inputs"
    and sc1: "shape u_inputs = [2 * 1, 1 + 1]"
    using tf_concat_pair [OF st1 ssn1] by auto
  obtain generated_u where m1: "model_call ?h (generator_u (self ?w)) (Some True) u_inputs = Some generated_u"
    and sm1: "shape generated_u = [2 * 1, 2]"
    using toy_model_call_recipe [OF gu sc1] by auto
  obtain snapshots where r1: "tf_reshape generated_u [int 2, -1] = Some snapshots"
    using tf_reshape_rows [OF sm1] by auto
  obtain X_f_g where t2: "tf_tile ?X_f [100, 1] = Some X_f_g" and st2: "shape X_f_g = [100 * 1, 1]"
    using tf_tile_rank2 [of ?X_f 1 1 100] by auto
  obtain f_inputs where c2: "tf_concat [X_f_g, noise_f] 1 = Some f_inputs"
    and sc2: "shape f_inputs = [100 * 1, 1 + 1]"
    using tf_concat_pair [OF st2 ssn2] by auto
  obtain generated_f_u where m2: "model_call ?h (generator_u (self ?w)) (Some True) f_inputs = Some generated_f_u"
    using toy_model_call_recipe [OF gu sc2] by auto
  obtain generated_f_E where m3: "model_call ?h (generator_E (self ?w)) (Some True) f_inputs = Some generated_f_E"
    using toy_model_call_recipe [OF gE sc2] by auto
  obtain fake_output where d1: "discriminator toy_discriminator (Some True) snapshots = Some fake_output"
    by (simp add: toy_discriminator_def)
  let ?tape = "\<lparr>persistent = True, watched = [X_f_g]\<rparr>"
  have p1: "pde_evaluate_loss (pde (self ?w))
      [(''X'', X_f_g), (''u'', generated_f_u), (''E'', generated_f_E)] ?tape = Some (Tensor [] [2])"
    by (simp add: toy_world_def init_def toy_pde_def)
  have b1: "bc_evaluate_loss (boundary_conditions (self ?w)) (generator_u (self ?w))
      (generator_E (self ?w)) ?tape = Some (Tensor [] [3])"
    by (simp add: toy_world_def init_def toy_bc_def)
  obtain gen_plus_pde where a1: "add ?h (negative ?h (reduce_mean ?h fake_output)) (Tensor [] [2]) = Some gen_plus_pde"
    and sa1: "shape gen_plus_pde = []"
    by (simp add: toy_host_def)
  obtain total_loss where a2: "add ?h gen_plus_pde (Tensor [] [3]) = Some total_loss"
    using sa1 by (simp add: toy_host_def)
  obtain grads where g1: "gradient ?h ?tape total_loss
      [trainable_variables (generator_u (self ?w)), trainable_variables (generator_E (self ?w))] = Some grads"
    and lg: "length grads = 2"
    by (simp add: toy_host_def)
  obtain grads_u grads_E where x0: "index grads 0 = Some grads_u" and x1: "index grads 1 = Some grads_E"
    using lg by (simp add: index_def)
  obtain new_u opt1 where ap1: "apply_gradients ?h (gen_opt (self ?w))
      (zip grads_u (trainable_variables (generator_u (self ?w)))) = Some (new_u, opt1)"
    by (simp add: toy_host_def)
  obtain new_E opt2 where ap2: "apply_gradients ?h opt1
      (zip grads_E (trainable_variables (generator_E (self ?w)))) = Some (new_E, opt2)"
    by (simp add: toy_host_def)
  from step_returns [OF i1 i2 t1 n1 sn1 n2 sn2 c1 m1 r1 t2 c2 m2 m3 d1 p1 b1 a1 a2 g1 x0 ap1 x1 ap2]
  show ?thesis by blast
qed

lemma toy_generate_returns:
  "generate toy_host toy_world (Tensor [2, 1] [5, 7]) 3 \<noteq> None"
  by code_simp

lemma toy_call_returns:
  "call toy_host toy_world (Tensor [2, 1] [5, 7]) (Tensor [2, 1] [0, 0]) \<noteq> None"
  by code_simp

lemma toy_inputs_X_u: "toy_inputs ''X_u'' = Some (Tensor [1, 1] [5])"
  by (simp add: toy_inputs_def)

lemma toy_inputs_X_f: "toy_inputs ''X_f'' = Some (Tensor [1, 1] [7])"
  by (simp add: toy_inputs_def)

section \<open>The constructor\<close>

text \<open>
  C4. The constructor builds two Sequential networks by the one recipe of
  \<^verbatim>\<open>_model\<close>: an input of \<open>input_shape\<close>, a Flatten layer, four Dense layers of 128
  units each followed by a tanh activation, and a last Dense layer with no activation after
  it (linear); \<open>generator_u\<close> gets 2 output units and \<open>generator_E\<close> gets 1.
\<close>

theorem init_builds_two_recipe_networks:
  fixes h :: "('a, 'ns, 'opt) host" and s p b optimizer sampler
  defines "g \<equiv> init h s p b optimizer sampler"
  shows "generator_u g = private_model h s 2 \<and> generator_E g = private_model h s 1 \<and>
     layers (generator_u g) =
       [Input s, Flatten,
        Dense 128 (Some ''glorot_uniform'') (Some ''zeros''), Activation ''tanh'',
        Dense 128 None None, Activation ''tanh'',
        Dense 128 None None, Activation ''tanh'',
        Dense 128 None None, Activation ''tanh'',
        Dense 2 None None] \<and>
     layers (generator_E g) =
       [Input s, Flatten,
        Dense 128 (Some ''glorot_uniform'') (Some ''zeros''), Activation ''tanh'',
        Dense 128 None None, Activation ''tanh'',
        Dense 128 None None, Activation ''tanh'',
        Dense 128 None None, Activation ''tanh'',
        Dense 1 None None] \<and>
     dense_units (layers (generator_u g)) = [128, 128, 128, 128, 2] \<and>
     dense_units (layers (generator_E g)) = [128, 128, 128, 128, 1] \<and>
     dense_activations (layers (generator_u g)) =
       [Some ''tanh'', Some ''tanh'', Some ''tanh'', Some ''tanh'', None] \<and>
     dense_activations (layers (generator_E g)) =
       [Some ''tanh'', Some ''tanh'', Some ''tanh'', Some ''tanh'', None]"
  unfolding g_def by (simp add: init_def layers_private_model)

section \<open>The training step\<close>

text \<open>
  C1. For every inputs dictionary holding \<open>X_u\<close> and \<open>X_f\<close>, every discriminator and
  every batch size, a call of \<^verbatim>\<open>step\<close> that returns has performed, in this order: the
  two draws of noise through \<^verbatim>\<open>noise_sampler.sample_noise\<close> (data coordinates, then
  collocation coordinates); the forward pass of \<open>generator_u\<close> on the tiled data
  coordinates concatenated with their noise along axis 1; the forward passes of
  \<open>generator_u\<close> and \<open>generator_E\<close> on the tiled collocation coordinates concatenated
  with their noise along axis 1; the discriminator call and the evaluation of the adversarial,
  PDE and boundary-condition losses; the gradient of their total through the tape; and the
  two \<^verbatim>\<open>gen_opt.apply_gradients\<close> calls, on the variables of \<open>generator_u\<close> and
  then of \<open>generator_E\<close>. The trace lists exactly these calls, each with its arguments.
\<close>

theorem step_performs_phases_in_order:
  assumes "inputs ''X_u'' = Some X_u" and "inputs ''X_f'' = Some X_f"
    and "step h w inputs d batch_size = Some (losses, w')"
  shows "\<exists>n_u n_f noise_u noise_f s1 s2 X_u_g X_f_g u_inputs f_inputs generated_u snapshots
      generated_f_u generated_f_E fake_output pde_loss bc_loss gen_plus_pde total_loss
      grads grads_u grads_E new_u new_E opt1 opt2.
     shape_at X_u 0 = Some n_u \<and> shape_at X_f 0 = Some n_f \<and>
     sample_noise h (noise_sampler (self w)) n_u batch_size = Some (noise_u, s1) \<and>
     sample_noise h s1 n_f 100 = Some (noise_f, s2) \<and>
     tf_tile X_u [batch_size, 1] = Some X_u_g \<and> tf_tile X_f [100, 1] = Some X_f_g \<and>
     tf_concat [X_u_g, noise_u] 1 = Some u_inputs \<and>
     tf_concat [X_f_g, noise_f] 1 = Some f_inputs \<and>
     model_call h (generator_u (self w)) (Some True) u_inputs = Some generated_u \<and>
     model_call h (generator_u (self w)) (Some True) f_inputs = Some generated_f_u \<and>
     model_call h (generator_E (self w)) (Some True) f_inputs = Some generated_f_E \<and>
     tf_reshape generated_u [int batch_size, -1] = Some snapshots \<and>
     discriminator d (Some True) snapshots = Some fake_output \<and>
     pde_evaluate_loss (pde (self w))
       [(''X'', X_f_g), (''u'', generated_f_u), (''E'', generated_f_E)]
       \<lparr>persistent = True, watched = [X_f_g]\<rparr> = Some pde_loss \<and>
     bc_evaluate_loss (boundary_conditions (self w)) (generator_u (self w))
       (generator_E (self w)) \<lparr>persistent = True, watched = [X_f_g]\<rparr> = Some bc_loss \<and>
     add h (negative h (reduce_mean h fake_output)) pde_loss = Some gen_plus_pde \<and>
     add h gen_plus_pde bc_loss = Some total_loss \<and>
     gradient h \<lparr>persistent = True, watched = [X_f_g]\<rparr> total_loss
       [trainable_variables (generator_u (self w)),
        trainable_variables (generator_E (self w))] = Some grads \<and>
     index grads 0 = Some grads_u \<and> index grads 1 = Some grads_E \<and>
     apply_gradients h (gen_opt (self w))
       (zip grads_u (trainable_variables (generator_u (self w)))) = Some (new_u, opt1) \<and>
     apply_gradients h opt1
       (zip grads_E (trainable_variables (generator_E (self w)))) = Some (new_E, opt2) \<and>
     trainable_variables (generator_u (self w')) =
       assign (trainable_variables (generator_u (self w))) new_u \<and>
     trainable_variables (generator_E (self w')) =
       assign (trainable_variables (generator_E (self w))) new_E \<and>
     trace w' = trace w @
       [SampleNoise n_u batch_size, SampleNoise n_f 100,
        ModelCall ''generator_u'' (generator_u (self w)) (Some True) u_inputs,
        Watch X_f_g,
        ModelCall ''generator_u'' (generator_u (self w)) (Some True) f_inputs,
        ModelCall ''generator_E'' (generator_E (self w)) (Some True) f_inputs,
        DiscriminatorCall (Some True) snapshots,
        PdeEvaluateLoss [(''X'', X_f_g), (''u'', generated_f_u), (''E'', generated_f_E)]
          \<lparr>persistent = True, watched = [X_f_g]\<rparr>,
        BcEvaluateLoss (generator_u (self w)) (generator_E (self w))
          \<lparr>persistent = True, watched = [X_f_g]\<rparr>,
        TapeGradient \<lparr>persistent = True, watched = [X_f_g]\<rparr> total_loss
          [trainable_variables (generator_u (self w)),
           trainable_variables (generator_E (self w))],
        ApplyGradients (zip grads_u (trainable_variables (generator_u (self w)))),
        ApplyGradients (zip grads_E (trainable_variables (generator_E (self w))))]"
  using assms(3)
  apply (rule step_SomeE)
  apply (insert assms(1,2))
  apply (simp only: option.inject)
  apply hypsubst
  apply (intro exI conjI)
  apply (assumption | simp)+
  done

theorem step_order_witness:
  "\<exists>losses w' cs. step toy_host toy_world toy_inputs toy_discriminator 2 = Some (losses, w') \<and>
     trace w' = trace toy_world @ cs \<and> length cs = 12 \<and>
     noise_requests cs = [(1, 2), (1, 100)] \<and> length (applied cs) = 2"
proof -
  from toy_step_returns obtain losses w'
    where s: "step toy_host toy_world toy_inputs toy_discriminator 2 = Some (losses, w')"
    by blast
  from step_performs_phases_in_order [OF toy_inputs_X_u toy_inputs_X_f s]
  obtain cs where "trace w' = trace toy_world @ cs" "length cs = 12"
    "noise_requests cs = [(1, 2), (1, 100)]" "length (applied cs) = 2"
    by (auto simp: shape_at_def)
  with s show ?thesis by blast
qed

text \<open>
  C2. In a training step that returns, the target handed to the one gradient call is
  \<open>(gen_loss + pde_loss) + bc_loss\<close>: \<open>gen_loss\<close> is the negated mean of the
  discriminator's output on the generated snapshots (the reshaped output of \<open>generator_u\<close>
  on the data inputs), \<open>pde_loss\<close> is what \<^verbatim>\<open>pde.evaluate_loss\<close> returned and
  \<open>bc_loss\<close> is what \<^verbatim>\<open>boundary_conditions.evaluate_loss\<close> returned; and
  \<^verbatim>\<open>step\<close> returns the triple of the three.
\<close>

theorem step_objective_is_sum_of_three_losses:
  assumes "step h w inputs d batch_size = Some ((gen_loss, pde_loss, bc_loss), w')"
  shows "\<exists>cs X_u X_u_g noise_u u_inputs generated_u snapshots fake_output terms tape'
      gen_plus_pde total_loss.
     trace w' = trace w @ cs \<and>
     inputs ''X_u'' = Some X_u \<and> tf_tile X_u [batch_size, 1] = Some X_u_g \<and>
     tf_concat [X_u_g, noise_u] 1 = Some u_inputs \<and>
     model_call h (generator_u (self w)) (Some True) u_inputs = Some generated_u \<and>
     tf_reshape generated_u [int batch_size, -1] = Some snapshots \<and>
     discriminator d (Some True) snapshots = Some fake_output \<and>
     gen_loss = negative h (reduce_mean h fake_output) \<and>
     pde_evaluate_loss (pde (self w)) terms tape' = Some pde_loss \<and>
     bc_evaluate_loss (boundary_conditions (self w)) (generator_u (self w))
       (generator_E (self w)) tape' = Some bc_loss \<and>
     add h gen_loss pde_loss = Some gen_plus_pde \<and>
     add h gen_plus_pde bc_loss = Some total_loss \<and>
     gradient_targets cs = [total_loss]"
  using assms
  apply (rule step_SomeE)
  apply (simp only: prod.inject)
  apply (elim conjE)
  apply (intro exI conjI)
  apply (assumption | simp)+
  done

theorem step_objective_witness:
  "\<exists>gen_loss w' cs total_loss plus.
     step toy_host toy_world toy_inputs toy_discriminator 2 =
       Some ((gen_loss, Tensor [] [2], Tensor [] [3]), w') \<and>
     trace w' = trace toy_world @ cs \<and> gradient_targets cs = [total_loss] \<and>
     add toy_host gen_loss (Tensor [] [2]) = Some plus \<and>
     add toy_host plus (Tensor [] [3]) = Some total_loss"
proof -
  from toy_step_returns obtain gen_loss pde_loss bc_loss w'
    where s: "step toy_host toy_world toy_inputs toy_discriminator 2 =
       Some ((gen_loss, pde_loss, bc_loss), w')"
    by auto
  from step_objective_is_sum_of_three_losses [OF s]
  obtain cs terms tape' plus total_loss where f: "trace w' = trace toy_world @ cs"
    "pde_evaluate_loss (pde (self toy_world)) terms tape' = Some pde_loss"
    "bc_evaluate_loss (boundary_conditions (self toy_world)) (generator_u (self toy_world))
       (generator_E (self toy_world)) tape' = Some bc_loss"
    "add toy_host gen_loss pde_loss = Some plus"
    "add toy_host plus bc_loss = Some total_loss"
    "gradient_targets cs = [total_loss]"
    by blast
  from f(2,3) have "pde_loss = Tensor [] [2]" "bc_loss = Tensor [] [3]"
    by (simp_all add: toy_world_def init_def toy_pde_def toy_bc_def)
  with s f show ?thesis by blast
qed

text \<open>
  C6. In a training step that returns, the tiled collocation inputs are watched by the
  tape before the two networks are run on them (concatenated with the collocation noise), and
  \<^verbatim>\<open>pde.evaluate_loss\<close> is then called with exactly these inputs under \<open>X\<close>, the
  outputs of \<open>generator_u\<close> and \<open>generator_E\<close> on them under \<open>u\<close> and \<open>E\<close>,
  and the tape that watches them; its result is the PDE loss of the step.
\<close>

theorem step_watches_collocation_inputs:
  assumes "inputs ''X_f'' = Some X_f"
    and "step h w inputs d batch_size = Some ((gen_loss, pde_loss, bc_loss), w')"
  shows "\<exists>before between after X_f_g noise_f f_inputs generated_f_u generated_f_E tape'.
     trace w' = trace w @ before @
       [Watch X_f_g,
        ModelCall ''generator_u'' (generator_u (self w)) (Some True) f_inputs,
        ModelCall ''generator_E'' (generator_E (self w)) (Some True) f_inputs] @ between @
       [PdeEvaluateLoss [(''X'', X_f_g), (''u'', generated_f_u), (''E'', generated_f_E)] tape']
       @ after \<and>
     tf_tile X_f [100, 1] = Some X_f_g \<and>
     tf_concat [X_f_g, noise_f] 1 = Some f_inputs \<and>
     model_call h (generator_u (self w)) (Some True) f_inputs = Some generated_f_u \<and>
     model_call h (generator_E (self w)) (Some True) f_inputs = Some generated_f_E \<and>
     watched tape' = [X_f_g] \<and>
     pde_evaluate_loss (pde (self w))
       [(''X'', X_f_g), (''u'', generated_f_u), (''E'', generated_f_E)] tape' = Some pde_loss"
  using assms(2)
  apply (rule step_SomeE)
  apply (insert assms(1))
  apply (simp only: option.inject prod.inject)
  apply (elim conjE)
  apply hypsubst
  apply (rule_tac x = "[SampleNoise n_u batch_size, SampleNoise n_f 100,
      ModelCall ''generator_u'' (generator_u (self w)) (Some True) u_inputs]" in exI)
  apply (rule_tac x = "[DiscriminatorCall (Some True) snapshots]" in exI)
  apply (intro exI conjI)
  apply (assumption | simp)+
  done

theorem step_watch_witness:
  "\<exists>losses w' before after X_f_g.
     step toy_host toy_world toy_inputs toy_discriminator 2 = Some (losses, w') \<and>
     tf_tile (Tensor [1, 1] [7]) [100, 1] = Some X_f_g \<and>
     trace w' = trace toy_world @ before @ Watch X_f_g # after"
proof -
  from toy_step_returns obtain gen_loss pde_loss bc_loss w'
    where s: "step toy_host toy_world toy_inputs toy_discriminator 2 =
       Some ((gen_loss, pde_loss, bc_loss), w')"
    by auto
  from step_watches_collocation_inputs [OF toy_inputs_X_f s]
  obtain before after X_f_g where "tf_tile (Tensor [1, 1] [7]) [100, 1] = Some X_f_g"
    "trace w' = trace toy_world @ before @ Watch X_f_g # after"
    by auto
  with s show ?thesis by blast
qed

text \<open>
  C8. Every training step that returns asks for 100 noise realizations for the collocation
  branch and tiles \<open>X_f\<close> 100 times (the tiled tensor has \<open>100 * n_f\<close> rows), whatever
  the batch size; the batch size appears in the data branch only: in the tiling of
  \<open>X_u\<close>, in the noise request for it, and in the reshaping of the generated snapshots.
\<close>

theorem step_uses_100_collocation_realizations:
  assumes "inputs ''X_u'' = Some X_u" and "inputs ''X_f'' = Some X_f"
    and "step h w inputs d batch_size = Some (losses, w')"
  shows "\<exists>cs n_u n_f dim X_u_g X_f_g noise_u noise_f s1 s2 u_inputs f_inputs generated_u
      snapshots.
     trace w' = trace w @ cs \<and>
     shape_at X_u 0 = Some n_u \<and> shape_at X_f 0 = Some n_f \<and>
     noise_requests cs = [(n_u, batch_size), (n_f, 100)] \<and>
     sample_noise h (noise_sampler (self w)) n_u batch_size = Some (noise_u, s1) \<and>
     sample_noise h s1 n_f 100 = Some (noise_f, s2) \<and>
     tf_tile X_f [100, 1] = Some X_f_g \<and>
     shape X_f = [n_f, dim] \<and> shape X_f_g = [100 * n_f, dim] \<and>
     tf_concat [X_f_g, noise_f] 1 = Some f_inputs \<and>
     tf_tile X_u [batch_size, 1] = Some X_u_g \<and>
     tf_concat [X_u_g, noise_u] 1 = Some u_inputs \<and>
     model_call h (generator_u (self w)) (Some True) u_inputs = Some generated_u \<and>
     tf_reshape generated_u [int batch_size, -1] = Some snapshots \<and>
     model_inputs cs =
       [(''generator_u'', Some True, u_inputs), (''generator_u'', Some True, f_inputs),
        (''generator_E'', Some True, f_inputs)]"
  using assms(3)
  apply (rule step_SomeE)
  apply (insert assms(1,2))
  apply (simp only: option.inject)
  apply hypsubst
  apply (frule (1) tf_tile_shape_at [where m = 100])
  apply (elim exE conjE)
  apply (intro exI conjI)
  apply (assumption | simp)+
  done

theorem step_collocation_count_witness:
  "\<exists>losses w' cs. step toy_host toy_world toy_inputs toy_discriminator 2 = Some (losses, w') \<and>
     trace w' = trace toy_world @ cs \<and> noise_requests cs = [(1, 2), (1, 100)] \<and>
     length (model_inputs cs) = 3"
proof -
  from toy_step_returns obtain losses w'
    where s: "step toy_host toy_world toy_inputs toy_discriminator 2 = Some (losses, w')"
    by blast
  from step_uses_100_collocation_realizations [OF toy_inputs_X_u toy_inputs_X_f s]
  obtain cs where "trace w' = trace toy_world @ cs" "noise_requests cs = [(1, 2), (1, 100)]"
    "length (model_inputs cs) = 3"
    by (auto simp: shape_at_def)
  with s show ?thesis by blast
qed

text \<open>
  C9. The triple returned by a training step is computed from the networks as they were
  when the step was entered: the three losses come from calls on the entry models, every one
  of these calls precedes the two \<^verbatim>\<open>apply_gradients\<close> calls, which are the last
  two calls of the step, and the variables change only through what these two calls return.
\<close>

theorem step_returns_losses_of_entry_weights:
  assumes "step h w inputs d batch_size = Some ((gen_loss, pde_loss, bc_loss), w')"
  shows "\<exists>before gvs_u gvs_E u_inputs f_inputs generated_u generated_f_u generated_f_E
      snapshots fake_output X_f_g tape' new_u new_E opt1 opt2.
     trace w' = trace w @ before @ [ApplyGradients gvs_u, ApplyGradients gvs_E] \<and>
     applied before = [] \<and>
     model_call h (generator_u (self w)) (Some True) u_inputs = Some generated_u \<and>
     tf_reshape generated_u [int batch_size, -1] = Some snapshots \<and>
     discriminator d (Some True) snapshots = Some fake_output \<and>
     gen_loss = negative h (reduce_mean h fake_output) \<and>
     pde_evaluate_loss (pde (self w))
       [(''X'', X_f_g), (''u'', generated_f_u), (''E'', generated_f_E)] tape' = Some pde_loss \<and>
     model_call h (generator_u (self w)) (Some True) f_inputs = Some generated_f_u \<and>
     model_call h (generator_E (self w)) (Some True) f_inputs = Some generated_f_E \<and>
     bc_evaluate_loss (boundary_conditions (self w)) (generator_u (self w))
       (generator_E (self w)) tape' = Some bc_loss \<and>
     apply_gradients h (gen_opt (self w)) gvs_u = Some (new_u, opt1) \<and>
     apply_gradients h opt1 gvs_E = Some (new_E, opt2) \<and>
     trainable_variables (generator_u (self w')) =
       assign (trainable_variables (generator_u (self w))) new_u \<and>
     trainable_variables (generator_E (self w')) =
       assign (trainable_variables (generator_E (self w))) new_E"
  using assms
  apply (rule step_SomeE)
  apply (simp only: prod.inject)
  apply (elim conjE)
  apply hypsubst
  apply (rule_tac x = "[SampleNoise n_u batch_size, SampleNoise n_f 100,
            ModelCall ''generator_u'' (generator_u (self w)) (Some True) u_inputs,
            Watch X_f_g,
            ModelCall ''generator_u'' (generator_u (self w)) (Some True) f_inputs,
            ModelCall ''generator_E'' (generator_E (self w)) (Some True) f_inputs,
            DiscriminatorCall (Some True) snapshots,
            PdeEvaluateLoss [(''X'', X_f_g), (''u'', generated_f_u), (''E'', generated_f_E)]
              \<lparr>persistent = True, watched = [X_f_g]\<rparr>,
            BcEvaluateLoss (generator_u (self w)) (generator_E (self w))
              \<lparr>persistent = True, watched = [X_f_g]\<rparr>,
            TapeGradient \<lparr>persistent = True, watched = [X_f_g]\<rparr> total_loss
              [trainable_variables (generator_u (self w)),
               trainable_variables (generator_E (self w))]]" in exI)
  apply (intro exI conjI)
  apply (assumption | simp)+
  done

theorem step_entry_weights_witness:
  "\<exists>losses w' before gvs_u gvs_E.
     step toy_host toy_world toy_inputs toy_discriminator 2 = Some (losses, w') \<and>
     trace w' = trace toy_world @ before @ [ApplyGradients gvs_u, ApplyGradients gvs_E] \<and>
     applied before = []"
proof -
  from toy_step_returns obtain gen_loss pde_loss bc_loss w'
    where s: "step toy_host toy_world toy_inputs toy_discriminator 2 =
       Some ((gen_loss, pde_loss, bc_loss), w')"
    by auto
  from step_returns_losses_of_entry_weights [OF s]
  obtain before gvs_u gvs_E where
    "trace w' = trace toy_world @ before @ [ApplyGradients gvs_u, ApplyGradients gvs_E]"
    "applied before = []"
    by blast
  with s show ?thesis by blast
qed

section \<open>Inference\<close>

text \<open>
  With at least one point the shapes are those of the docstring of \<^verbatim>\<open>generate\<close>: for
  \<open>X\<close> of shape \<open>[n, d]\<close> with \<open>n > 0\<close> and a positive number of samples \<open>m\<close>, a
  call that returns on networks of the constructor's recipe has drawn noise once by
  \<^verbatim>\<open>sample_noise(n, m)\<close>, tiled \<open>X\<close> \<open>m\<close> times, run both networks with
  \<^verbatim>\<open>training=False\<close> on the concatenation of the tiled coordinates and the noise, and
  returns \<open>u_samples\<close> of shape \<open>[m, n, 2]\<close> and \<open>E_samples\<close> of shape \<open>[m, n, 1]\<close>.
\<close>

lemma generate_returns_samples_of_shape:
  assumes "recipe_output_shape h"
    and "layers (generator_u (self w)) = layers (private_model h s 2)"
    and "layers (generator_E (self w)) = layers (private_model h s 1)"
    and "shape X = [n, dim]" and "0 < n" and "0 < m"
    and "generate h w X m = Some ((u_samples, E_samples), w')"
  shows "shape u_samples = [m, n, 2] \<and> shape E_samples = [m, n, 1] \<and>
     (\<exists>noise s1 X_g x generated_u generated_E.
        trace w' = trace w @
          [SampleNoise n m,
           ModelCall ''generator_u'' (generator_u (self w)) (Some False) x,
           ModelCall ''generator_E'' (generator_E (self w)) (Some False) x] \<and>
        sample_noise h (noise_sampler (self w)) n m = Some (noise, s1) \<and>
        tf_tile X [m, 1] = Some X_g \<and> shape X_g = [m * n, dim] \<and>
        tf_concat [X_g, noise] 1 = Some x \<and>
        model_call h (generator_u (self w)) (Some False) x = Some generated_u \<and>
        model_call h (generator_E (self w)) (Some False) x = Some generated_E \<and>
        tf_reshape generated_u [int m, int n, -1] = Some u_samples \<and>
        tf_reshape generated_E [int m, int n, -1] = Some E_samples)"
proof -
  from assms(7) show ?thesis
  proof (rule generate_SomeE)
    fix n' noise s1 X_g x generated_u generated_E u_samples' E_samples'
    assume n': "shape_at X 0 = Some n'"
      and sn: "sample_noise h (noise_sampler (self w)) n' m = Some (noise, s1)"
      and tile: "tf_tile X [m, 1] = Some X_g"
      and cat: "tf_concat [X_g, noise] 1 = Some x"
      and mu: "model_call h (generator_u (self w)) (Some False) x = Some generated_u"
      and ru: "tf_reshape generated_u [int m, int n', -1] = Some u_samples'"
      and mE: "model_call h (generator_E (self w)) (Some False) x = Some generated_E"
      and rE: "tf_reshape generated_E [int m, int n', -1] = Some E_samples'"
      and res: "(u_samples, E_samples) = (u_samples', E_samples')"
      and tr: "trace w' = trace w @
           [SampleNoise n' m,
            ModelCall ''generator_u'' (generator_u (self w)) (Some False) x,
            ModelCall ''generator_E'' (generator_E (self w)) (Some False) x]"
    from n' assms(4) have [simp]: "n' = n" by (simp add: shape_at_def)
    from res have [simp]: "u_samples' = u_samples" "E_samples' = E_samples" by simp_all
    from tf_tile_SomeD [OF tile] assms(4) have sg: "shape X_g = [m * n, dim]" by auto
    from tf_concat_SomeD [OF cat sg] obtain rest where sx: "shape x = (m * n) # rest" by blast
    from assms(1) assms(2) sx mu have su: "shape generated_u = [m * n, 2]"
      unfolding recipe_output_shape_def by blast
    from assms(1) assms(3) sx mE have sE: "shape generated_E = [m * n, 1]"
      unfolding recipe_output_shape_def by blast
    from tf_reshape_samples [OF su assms(6) assms(5)] ru
    have "shape u_samples = [m, n, 2]" by simp
    moreover from tf_reshape_samples [OF sE assms(6) assms(5)] rE
    have "shape E_samples = [m, n, 1]" by simp
    ultimately show ?thesis
      using sn tile sg cat mu mE ru rE tr by auto
  qed
qed

lemma generate_shape_witness:
  "\<exists>u e w'. generate toy_host toy_world (Tensor [2, 1] [5, 7]) 3 = Some ((u, e), w') \<and>
     shape u = [3, 2, 2] \<and> shape e = [3, 2, 1]"
proof -
  from toy_generate_returns obtain u e w'
    where g: "generate toy_host toy_world (Tensor [2, 1] [5, 7]) 3 = Some ((u, e), w')"
    by auto
  have gu: "layers (generator_u (self toy_world)) = layers (private_model toy_host [2] 2)"
    and gE: "layers (generator_E (self toy_world)) = layers (private_model toy_host [2] 1)"
    by (simp_all add: toy_world_def init_def)
  have sh: "shape (Tensor [2, 1] [5, 7 :: int]) = [2, 1]" by simp
  from generate_returns_samples_of_shape [OF recipe_output_shape_toy gu gE sh _ _ g]
  have "shape u = [3, 2, 2] \<and> shape e = [3, 2, 1]" by simp
  with g show ?thesis by blast
qed

text \<open>
  C3. For every coordinate array \<open>X\<close> of shape \<open>[n, d]\<close> and every positive number of
  samples \<open>m\<close>, \<^verbatim>\<open>generate(X, m)\<close> is to return \<open>u_samples\<close> of shape
  \<open>[m, n, 2]\<close> and \<open>E_samples\<close> of shape \<open>[m, n, 1]\<close>, as its docstring says
  (\<open>[num_samples, number of points, dimensionality]\<close> and
  \<open>[num_samples, number of points, 1]\<close>). The code does not deliver this on an array
  without points: for \<open>X\<close> of shape \<open>[0, 1]\<close> and three samples, the size
  \<^verbatim>\<open>-1\<close> of the reshape to \<open>[3, 0, -1]\<close> is inferred as 0, and both arrays come
  back with shape \<open>[3, 0, 0]\<close> where \<open>[3, 0, 2]\<close> and \<open>[3, 0, 1]\<close> are due.
\<close>

theorem generate_empty_coordinates_counterexample:
  "returned_shapes (generate toy_host toy_world (Tensor [0, 1] []) 3) =
     Some ([3, 0, 0], [3, 0, 0])"
  by code_simp

text \<open>
  C7. In \<^verbatim>\<open>__call__\<close> and in \<^verbatim>\<open>generate\<close>, \<open>generator_u\<close> and \<open>generator_E\<close>
  are run on the same input tensor: the coordinates concatenated with one noise tensor
  (the argument of \<^verbatim>\<open>__call__\<close>; the single draw of \<^verbatim>\<open>generate\<close>).
\<close>

theorem call_and_generate_share_one_input:
  "(call h w gen_input noise = Some ((u_pred, E_pred), w') \<longrightarrow>
      (\<exists>x. tf_concat [gen_input, noise] 1 = Some x \<and>
         model_call h (generator_u (self w)) None x = Some u_pred \<and>
         model_call h (generator_E (self w)) None x = Some E_pred \<and>
         trace w' = trace w @
           [ModelCall ''generator_u'' (generator_u (self w)) None x,
            ModelCall ''generator_E'' (generator_E (self w)) None x])) \<and>
   (generate h w X m = Some ((u_samples, E_samples), w'') \<longrightarrow>
      (\<exists>n sampled s1 X_g x generated_u generated_E.
         shape_at X 0 = Some n \<and>
         sample_noise h (noise_sampler (self w)) n m = Some (sampled, s1) \<and>
         tf_tile X [m, 1] = Some X_g \<and>
         tf_concat [X_g, sampled] 1 = Some x \<and>
         model_call h (generator_u (self w)) (Some False) x = Some generated_u \<and>
         model_call h (generator_E (self w)) (Some False) x = Some generated_E \<and>
         tf_reshape generated_u [int m, int n, -1] = Some u_samples \<and>
         tf_reshape generated_E [int m, int n, -1] = Some E_samples \<and>
         trace w'' = trace w @
           [SampleNoise n m,
            ModelCall ''generator_u'' (generator_u (self w)) (Some False) x,
            ModelCall ''generator_E'' (generator_E (self w)) (Some False) x]))"
proof (intro conjI impI)
  assume "call h w gen_input noise = Some ((u_pred, E_pred), w')"
  then show "\<exists>x. tf_concat [gen_input, noise] 1 = Some x \<and>
         model_call h (generator_u (self w)) None x = Some u_pred \<and>
         model_call h (generator_E (self w)) None x = Some E_pred \<and>
         trace w' = trace w @
           [ModelCall ''generator_u'' (generator_u (self w)) None x,
            ModelCall ''generator_E'' (generator_E (self w)) None x]"
    apply (rule call_SomeE)
    apply (simp only: prod.inject)
    apply (elim conjE)
    apply hypsubst
    apply (intro exI conjI)
    apply (assumption | simp)+
    done
next
  assume "generate h w X m = Some ((u_samples, E_samples), w'')"
  then show "\<exists>n sampled s1 X_g x generated_u generated_E.
         shape_at X 0 = Some n \<and>
         sample_noise h (noise_sampler (self w)) n m = Some (sampled, s1) \<and>
         tf_tile X [m, 1] = Some X_g \<and>
         tf_concat [X_g, sampled] 1 = Some x \<and>
         model_call h (generator_u (self w)) (Some False) x = Some generated_u \<and>
         model_call h (generator_E (self w)) (Some False) x = Some generated_E \<and>
         tf_reshape generated_u [int m, int n, -1] = Some u_samples \<and>
         tf_reshape generated_E [int m, int n, -1] = Some E_samples \<and>
         trace w'' = trace w @
           [SampleNoise n m,
            ModelCall ''generator_u'' (generator_u (self w)) (Some False) x,
            ModelCall ''generator_E'' (generator_E (self w)) (Some False) x]"
    apply (rule generate_SomeE)
    apply (simp only: prod.inject)
    apply (elim conjE)
    apply hypsubst
    apply (intro exI conjI)
    apply (assumption | simp)+
    done
qed

theorem shared_input_witness:
  "\<exists>u_pred E_pred w' x u_samples E_samples w'' y.
     call toy_host toy_world (Tensor [2, 1] [5, 7]) (Tensor [2, 1] [0, 0]) =
       Some ((u_pred, E_pred), w') \<and>
     model_inputs (trace w') = [(''generator_u'', None, x), (''generator_E'', None, x)] \<and>
     generate toy_host toy_world (Tensor [2, 1] [5, 7]) 3 =
       Some ((u_samples, E_samples), w'') \<and>
     noise_requests (trace w'') = [(2, 3)] \<and>
     model_inputs (trace w'') =
       [(''generator_u'', Some False, y), (''generator_E'', Some False, y)]"
proof -
  from toy_call_returns obtain u_pred E_pred w'
    where c: "call toy_host toy_world (Tensor [2, 1] [5, 7]) (Tensor [2, 1] [0, 0]) =
       Some ((u_pred, E_pred), w')"
    by auto
  from toy_generate_returns obtain u_samples E_samples w''
    where g: "generate toy_host toy_world (Tensor [2, 1] [5, 7]) 3 =
       Some ((u_samples, E_samples), w'')"
    by auto
  have t: "trace toy_world = []" by (simp add: toy_world_def)
  from call_and_generate_share_one_input
    [of toy_host toy_world "Tensor [2, 1] [5, 7]" "Tensor [2, 1] [0, 0]" u_pred E_pred w'
       "Tensor [2, 1] [5, 7]" 3 u_samples E_samples w''] c g
  obtain x y where
    "model_inputs (trace w') = [(''generator_u'', None, x), (''generator_E'', None, x)]"
    "noise_requests (trace w'') = [(2, 3)]"
    "model_inputs (trace w'') =
       [(''generator_u'', Some False, y), (''generator_E'', Some False, y)]"
    by (auto simp: t shape_at_def)
  with c g show ?thesis by blast
qed

section \<open>Persistence and frame\<close>

text \<open>
  C5. For every directory and every generator state, \<^verbatim>\<open>save\<close> writes the two models
  to \<open>generator_u.h5\<close> and \<open>generator_E.h5\<close> in that directory, and a later
  \<^verbatim>\<open>load\<close> from the same directory (at once, or from any generator state while the
  files are as \<^verbatim>\<open>save\<close> left them) restores both networks, so that they compute the
  same outputs on every input as the saved ones.
\<close>

theorem save_then_load_restores_networks:
  fixes h :: "('a, 'ns, 'opt) host" and w later :: "('a, 'ns, 'opt) world"
  shows "files (save w dir) (joinpath dir ''generator_u.h5'') = Some (generator_u (self w)) \<and>
     files (save w dir) (joinpath dir ''generator_E.h5'') = Some (generator_E (self w)) \<and>
     (\<exists>w'. load (save w dir) dir = Some w' \<and>
        generator_u (self w') = generator_u (self w) \<and>
        generator_E (self w') = generator_E (self w) \<and>
        model_call h (generator_u (self w')) training x =
          model_call h (generator_u (self w)) training x \<and>
        model_call h (generator_E (self w')) training x =
          model_call h (generator_E (self w)) training x) \<and>
     (\<exists>w'. load (later\<lparr>files := files (save w dir)\<rparr>) dir = Some w' \<and>
        generator_u (self w') = generator_u (self w) \<and>
        generator_E (self w') = generator_E (self w) \<and>
        model_call h (generator_u (self w')) training x =
          model_call h (generator_u (self w)) training x \<and>
        model_call h (generator_E (self w')) training x =
          model_call h (generator_E (self w)) training x)"
  by (simp add: save_def load_def joinpath_def Let_def)

text \<open>
  C10. \<^verbatim>\<open>__call__\<close> and \<^verbatim>\<open>generate\<close> leave both networks and the optimizer as
  they were, and so does \<^verbatim>\<open>save\<close>; \<^verbatim>\<open>step\<close> keeps the layer stacks and changes
  the trainable variables only by what its two \<^verbatim>\<open>apply_gradients\<close> calls return;
  \<^verbatim>\<open>load\<close> replaces the two models by the contents of the two files and leaves the
  optimizer alone.
\<close>

theorem only_step_and_load_change_networks:
  "(call h w gen_input noise = Some (preds, w1) \<longrightarrow>
      generator_u (self w1) = generator_u (self w) \<and>
      generator_E (self w1) = generator_E (self w) \<and> gen_opt (self w1) = gen_opt (self w)) \<and>
   (generate h w X m = Some (samples, w2) \<longrightarrow>
      generator_u (self w2) = generator_u (self w) \<and>
      generator_E (self w2) = generator_E (self w) \<and> gen_opt (self w2) = gen_opt (self w)) \<and>
   self (save w dir) = self w \<and>
   (step h w inputs d batch_size = Some (losses, w3) \<longrightarrow>
      layers (generator_u (self w3)) = layers (generator_u (self w)) \<and>
      layers (generator_E (self w3)) = layers (generator_E (self w)) \<and>
      (\<exists>cs gvs_u gvs_E new_u new_E opt1.
         trace w3 = trace w @ cs \<and> applied cs = [gvs_u, gvs_E] \<and>
         apply_gradients h (gen_opt (self w)) gvs_u = Some (new_u, opt1) \<and>
         apply_gradients h opt1 gvs_E = Some (new_E, gen_opt (self w3)) \<and>
         trainable_variables (generator_u (self w3)) =
           assign (trainable_variables (generator_u (self w))) new_u \<and>
         trainable_variables (generator_E (self w3)) =
           assign (trainable_variables (generator_E (self w))) new_E)) \<and>
   (load w dir = Some w4 \<longrightarrow>
      files w (joinpath dir ''generator_u.h5'') = Some (generator_u (self w4)) \<and>
      files w (joinpath dir ''generator_E.h5'') = Some (generator_E (self w4)) \<and>
      gen_opt (self w4) = gen_opt (self w))"
proof (intro conjI impI)
  assume "call h w gen_input noise = Some (preds, w1)"
  then have "self w1 = self w" by (rule call_SomeE)
  then show "generator_u (self w1) = generator_u (self w)"
    "generator_E (self w1) = generator_E (self w)" "gen_opt (self w1) = gen_opt (self w)"
    by simp_all
next
  assume "generate h w X m = Some (samples, w2)"
  then obtain s1 where "self w2 = (self w)\<lparr>noise_sampler := s1\<rparr>" by (rule generate_SomeE)
  then show "generator_u (self w2) = generator_u (self w)"
    "generator_E (self w2) = generator_E (self w)" "gen_opt (self w2) = gen_opt (self w)"
    by simp_all
next
  show "self (save w dir) = self w" by (simp add: save_def Let_def)
next
  assume s: "step h w inputs d batch_size = Some (losses, w3)"
  from s show "layers (generator_u (self w3)) = layers (generator_u (self w))"
    by (rule step_SomeE) simp
  from s show "layers (generator_E (self w3)) = layers (generator_E (self w))"
    by (rule step_SomeE) simp
  from s show "\<exists>cs gvs_u gvs_E new_u new_E opt1.
         trace w3 = trace w @ cs \<and> applied cs = [gvs_u, gvs_E] \<and>
         apply_gradients h (gen_opt (self w)) gvs_u = Some (new_u, opt1) \<and>
         apply_gradients h opt1 gvs_E = Some (new_E, gen_opt (self w3)) \<and>
         trainable_variables (generator_u (self w3)) =
           assign (trainable_variables (generator_u (self w))) new_u \<and>
         trainable_variables (generator_E (self w3)) =
           assign (trainable_variables (generator_E (self w))) new_E"
    apply (rule step_SomeE)
    apply (intro exI conjI)
    apply (assumption | simp)+
    done
next
  assume l: "load w dir = Some w4"
  then show "files w (joinpath dir ''generator_u.h5'') = Some (generator_u (self w4))"
    "files w (joinpath dir ''generator_E.h5'') = Some (generator_E (self w4))"
    "gen_opt (self w4) = gen_opt (self w)"
    by (auto simp: load_def Let_def bind_eq_Some_conv)
qed

theorem frame_witness:
  "\<exists>preds w1 samples w2 losses w3 w4.
     call toy_host toy_world (Tensor [2, 1] [5, 7]) (Tensor [2, 1] [0, 0]) = Some (preds, w1) \<and>
     generator_u (self w1) = generator_u (self toy_world) \<and>
     generate toy_host toy_world (Tensor [2, 1] [5, 7]) 3 = Some (samples, w2) \<and>
     generator_u (self w2) = generator_u (self toy_world) \<and>
     step toy_host toy_world toy_inputs toy_discriminator 2 = Some (losses, w3) \<and>
     layers (generator_u (self w3)) = layers (generator_u (self toy_world)) \<and>
     load (save toy_world [''models'']) [''models''] = Some w4 \<and>
     generator_u (self w4) = generator_u (self toy_world) \<and>
     generator_E (self w4) = generator_E (self toy_world)"
proof -
  let ?X = "Tensor [2, 1] [5, 7] :: int tensor" and ?z = "Tensor [2, 1] [0, 0] :: int tensor"
  let ?saved = "save toy_world [''models'']"
  from toy_call_returns obtain preds w1
    where c: "call toy_host toy_world ?X ?z = Some (preds, w1)" by auto
  from toy_generate_returns obtain samples w2
    where g: "generate toy_host toy_world ?X 3 = Some (samples, w2)" by auto
  from toy_step_returns obtain losses w3
    where s: "step toy_host toy_world toy_inputs toy_discriminator 2 = Some (losses, w3)"
    by blast
  obtain w4 where l: "load ?saved [''models''] = Some w4"
    by (simp add: load_def save_def joinpath_def Let_def)
  from only_step_and_load_change_networks
    [of toy_host toy_world ?X ?z preds w1 ?X 3 samples w2 "[''models'']"
       toy_inputs toy_discriminator 2 losses w3 undefined] c g s
  have a: "generator_u (self w1) = generator_u (self toy_world)"
    "generator_u (self w2) = generator_u (self toy_world)"
    "layers (generator_u (self w3)) = layers (generator_u (self toy_world))"
    by simp_all
  from only_step_and_load_change_networks
    [of toy_host ?saved ?X ?z preds w1 ?X 3 samples w2 "[''models'']"
       toy_inputs toy_discriminator 2 losses w3 w4] l
  have "files ?saved (joinpath [''models''] ''generator_u.h5'') = Some (generator_u (self w4))"
    "files ?saved (joinpath [''models''] ''generator_E.h5'') = Some (generator_E (self w4))"
    by simp_all
  then have b: "generator_u (self w4) = generator_u (self toy_world)"
    "generator_E (self w4) = generator_E (self toy_world)"
    by (simp_all add: save_def joinpath_def Let_def)
  from c g s l a b show ?thesis by blast
qed

end
